theory Spec2Isabelle
  imports Complex_Main
begin

section \<open>The control-flow graph of \<open>UserRepository.update()\<close>\<close>

text \<open>
  \<open>flow_graph_visualization.py\<close>, \<open>create_flow_graph\<close>: the graph is two literals of the
  function. \<open>nodes\<close> is a dict from the node's number to \<open>(x, y, text)\<close>, kept here as an
  association list in the dict's insertion order; \<open>edges\<close> is a list of
  \<open>(start, end, label)\<close>.
\<close>

type_synonym node = nat

definition nodes :: "(node \<times> int \<times> int \<times> string) list" where
  "nodes =
    [(1, 5, 15, ''1. user = get_by_id()''),
     (2, 5, 14, ''2. if user is None''),
     (3, 2, 13, ''3. raise HTTPException\<newline>(404)''),
     (4, 5, 12, ''4. update_data = \<newline>model_dump()''),
     (5, 5, 11, ''5. if 'email' in \<newline>update_data''),
     (6, 3, 10, ''6. existing_user = \<newline>get_by_email()''),
     (7, 3, 9, ''7. if existing_user and \<newline>existing_user.id != id''),
     (8, 1, 8, ''8. raise HTTPException\<newline>(400)''),
     (9, 5, 8, ''9. for key, value in \<newline>update_data.items()''),
     (10, 5, 7, ''10. setattr(user, \<newline>key, value)''),
     (11, 5, 6, ''11. user.updated_at = \<newline>datetime.now()''),
     (12, 5, 5, ''12. session.commit()''),
     (13, 5, 4, ''13. session.refresh()''),
     (14, 5, 3, ''14. return user'')]"

definition edges :: "(node \<times> node \<times> string) list" where
  "edges =
    [(1, 2, ''''),
     (2, 3, ''user is None''),
     (2, 4, ''user exists''),
     (4, 5, ''''),
     (5, 6, ''email in data''),
     (5, 9, ''no email''),
     (6, 7, ''''),
     (7, 8, ''email taken''),
     (7, 9, ''email ok''),
     (9, 10, ''has items''),
     (10, 9, ''loop back''),
     (9, 11, ''loop end''),
     (11, 12, ''''),
     (12, 13, ''''),
     (13, 14, '''')]"

text \<open>
  The loop that draws the nodes picks the colour of a node by its number: the numbers in
  \<open>[3, 8]\<close> are the exception nodes, those in \<open>[2, 5, 7, 9]\<close> the predicate nodes, every
  other node is an ordinary operation.
\<close>

datatype node_kind = ExceptionNode | PredicateNode | OrdinaryNode

definition exception_ids :: "node list" where
  "exception_ids = [3, 8]"

definition predicate_ids :: "node list" where
  "predicate_ids = [2, 5, 7, 9]"

definition node_kind_of :: "node \<Rightarrow> node_kind" where
  "node_kind_of node_id =
    (if node_id \<in> set exception_ids then ExceptionNode
     else if node_id \<in> set predicate_ids then PredicateNode
     else OrdinaryNode)"

definition node_ids :: "node list" where
  "node_ids = map fst nodes"

definition node_text :: "node \<Rightarrow> string option" where
  "node_text n = map_option (\<lambda>(x, y, text). text) (map_of nodes n)"

definition edge_pairs :: "(node \<times> node) list" where
  "edge_pairs = map (\<lambda>(start, end, label). (start, end)) edges"

definition successors :: "node \<Rightarrow> node list" where
  "successors n = map snd (filter (\<lambda>(start, end). start = n) edge_pairs)"

definition predecessors :: "node \<Rightarrow> node list" where
  "predecessors n = map fst (filter (\<lambda>(start, end). end = n) edge_pairs)"

text \<open>A walk: every consecutive pair of the list is an edge of \<open>edges\<close>.\<close>

fun is_walk :: "node list \<Rightarrow> bool" where
  "is_walk [] = True"
| "is_walk [x] = True"
| "is_walk (x # y # rest) = ((x, y) \<in> set edge_pairs \<and> is_walk (y # rest))"

subsection \<open>The annotation drawn beside the graph\<close>

text \<open>
  The text block \<open>complexity_text\<close> of \<open>create_flow_graph\<close> states the figures of the
  cyclomatic complexity and the basis of independent paths. Its lines are, in order:
  the formula \<open>M = E - N + 2P\<close>; \<open>E = 15\<close>; \<open>N = 14\<close>; \<open>P = 1\<close>;
  \<open>M = 15 - 14 + 2(1) = 3\<close>; predicate nodes: 4; \<open>M = 4 + 1 = 5\<close>; and the five paths.
\<close>

definition cyclomatic :: "int \<Rightarrow> int \<Rightarrow> int \<Rightarrow> int" where
  "cyclomatic E N P = E - N + 2 * P"

definition annotated_E :: int where "annotated_E = 15"
definition annotated_N :: int where "annotated_N = 14"
definition annotated_P :: int where "annotated_P = 1"
definition annotated_M_formula :: int where "annotated_M_formula = 3"
definition annotated_predicates :: int where "annotated_predicates = 4"
definition annotated_M_predicates :: int where "annotated_M_predicates = 5"

definition basis_paths :: "node list list" where
  "basis_paths =
    [[1, 2, 3],
     [1, 2, 4, 5, 9, 11, 12, 13, 14],
     [1, 2, 4, 5, 6, 7, 8],
     [1, 2, 4, 5, 6, 7, 9, 10, 11, 12, 13, 14],
     [1, 2, 4, 5, 6, 7, 9, 11, 12, 13, 14]]"

subsection \<open>Connected components of the graph\<close>

text \<open>
  The number of connected components \<open>P\<close> of the formula is counted on the graph with
  its edges read in both directions: \<open>component_of\<close> closes a node under its neighbours
  (one round per node is enough), and \<open>count_components\<close> removes one component after
  the other from the list of nodes.
\<close>

definition neighbours :: "node \<Rightarrow> node list" where
  "neighbours n = successors n @ predecessors n"

fun close_under :: "nat \<Rightarrow> node list \<Rightarrow> node list" where
  "close_under 0 xs = xs"
| "close_under (Suc k) xs = close_under k (remdups (xs @ concat (map neighbours xs)))"

definition component_of :: "node \<Rightarrow> node list" where
  "component_of n = close_under (length nodes) [n]"

fun count_from :: "nat \<Rightarrow> node list \<Rightarrow> nat" where
  "count_from 0 todo = 0"
| "count_from (Suc k) [] = 0"
| "count_from (Suc k) (n # todo) =
     Suc (count_from k (filter (\<lambda>m. m \<notin> set (component_of n)) todo))"

definition count_components :: nat where
  "count_components = count_from (length nodes) node_ids"

subsection \<open>The script's two figures\<close>

text \<open>
  \<open>create_flow_graph\<close> takes no argument and opens no file: what it draws is the node
  boxes (each with the colour of its kind), the arrows of \<open>edges\<close> and the annotation.
  \<open>create_complexity_analysis\<close> draws two bar charts from literals: the value 5 for each
  of the three ways of computing the complexity (the first bar is labelled
  \<open>M = E - N + 2P\<close>), and a coverage of 100 for each of the five paths.
\<close>

definition create_flow_graph ::
  "(node \<times> int \<times> int \<times> string \<times> node_kind) list \<times> (node \<times> node \<times> string) list
     \<times> int list \<times> node list list" where
  "create_flow_graph =
    (map (\<lambda>(node_id, x, y, text). (node_id, x, y, text, node_kind_of node_id)) nodes,
     edges,
     [annotated_E, annotated_N, annotated_P, annotated_M_formula, annotated_predicates,
      annotated_M_predicates],
     basis_paths)"

definition create_complexity_analysis :: "int list \<times> int list" where
  "create_complexity_analysis = ([5, 5, 5], [100, 100, 100, 100, 100])"

subsection \<open>The project directory and the script's main block\<close>

text \<open>
  Both scripts name one directory, the project root
  \<open>c:/Users/roman/Downloads/rutok-users-develop\<close>. What they can meet there is whether
  the directory exists, and the entries under it whose name matches \<open>*.py\<close>: their
  paths relative to the root, as strings, in the order in which a recursive walk yields
  them.
\<close>

record file_system =
  root_is_dir :: bool
  py_paths :: "string list"

text \<open>The exceptions that the modelled statements can raise.\<close>

datatype py_error = ZeroDivisionError | OverflowError | FileNotFoundError

datatype figure =
    FlowGraph "(node \<times> int \<times> int \<times> string \<times> node_kind) list
                 \<times> (node \<times> node \<times> string) list \<times> int list \<times> node list list"
  | ComplexityAnalysis "int list \<times> int list"

text \<open>
  \<open>fig.savefig(path)\<close> with a path directly under the project root: the figure is
  written under its file name, and the call raises \<open>FileNotFoundError\<close> when the
  directory is not there. The files saved so far are passed along.
\<close>

definition savefig ::
  "file_system \<Rightarrow> string \<Rightarrow> figure \<Rightarrow> (string \<times> figure) list
     \<Rightarrow> py_error + (string \<times> figure) list" where
  "savefig fs name fig saved_so_far =
    (if root_is_dir fs then Inr (saved_so_far @ [(name, fig)]) else Inl FileNotFoundError)"

text \<open>
  The three lines the main block prints at its end (Russian text in the source): the
  heading that the graphs are saved, and one line for each of the two files.
\<close>

datatype printed_line = GraphsSaved | FlowGraphFile | ComplexityAnalysisFile

record flow_output =
  saved :: "(string \<times> figure) list"
  printed :: "printed_line list"

text \<open>
  The main block of the script: it builds the flow graph and saves it, then builds the
  complexity analysis and saves it, then prints its three lines (and shows the figures).
  An exception of the first \<open>savefig\<close> ends the run before the second figure is built.
\<close>

definition flow_graph_main :: "file_system \<Rightarrow> py_error + flow_output" where
  "flow_graph_main fs =
    (let flow_fig = FlowGraph create_flow_graph in
     case savefig fs ''flow_graph.png'' flow_fig [] of
       Inl e \<Rightarrow> Inl e
     | Inr saved1 \<Rightarrow>
         let complexity_fig = ComplexityAnalysis create_complexity_analysis in
         (case savefig fs ''complexity_analysis.png'' complexity_fig saved1 of
            Inl e \<Rightarrow> Inl e
          | Inr saved2 \<Rightarrow>
              Inr \<lparr>saved = saved2,
                   printed = [GraphsSaved, FlowGraphFile, ComplexityAnalysisFile]\<rparr>))"

section \<open>The username validator\<close>

text \<open>
  \<open>tests/test_simple_validation.py\<close>, \<open>validate_username\<close>. A Python \<open>str\<close> is a sequence
  of code points: a string is a list over a type \<open>'c\<close> of characters, and the three
  classifications of Python's Unicode tables that the function consults through
  \<open>strip\<close>, \<open>isdigit\<close> and \<open>isalnum\<close> are parameters (\<open>sp\<close>, \<open>dg\<close>, \<open>an\<close>), so that
  nothing is assumed about them. The five messages (Russian text in the source) are the
  constructors of \<open>username_error\<close>, in the order of their appearance.
\<close>

datatype username_error =
    EmptyUsername
  | TooShort
  | TooLong
  | OnlyDigits
  | NotAlphanumeric

record validation =
  valid :: bool
  errors :: "username_error list"

text \<open>\<open>s.strip()\<close>: leading and trailing whitespace removed.\<close>

definition strip :: "('c \<Rightarrow> bool) \<Rightarrow> 'c list \<Rightarrow> 'c list" where
  "strip sp s = rev (dropWhile sp (rev (dropWhile sp s)))"

text \<open>\<open>s.isdigit()\<close>, \<open>s.isalnum()\<close>: every character is of the class and there is at
  least one character.\<close>

definition isdigit :: "('c \<Rightarrow> bool) \<Rightarrow> 'c list \<Rightarrow> bool" where
  "isdigit dg s = (s \<noteq> [] \<and> list_all dg s)"

definition isalnum :: "('c \<Rightarrow> bool) \<Rightarrow> 'c list \<Rightarrow> bool" where
  "isalnum an s = (s \<noteq> [] \<and> list_all an s)"

definition validate_username ::
  "('c \<Rightarrow> bool) \<Rightarrow> ('c \<Rightarrow> bool) \<Rightarrow> ('c \<Rightarrow> bool) \<Rightarrow> 'c list \<Rightarrow> validation" where
  "validate_username sp dg an username =
    (if username = [] \<or> strip sp username = [] then
       \<lparr>valid = False, errors = [EmptyUsername]\<rparr>
     else
       let errors1 =
             (if length username < 2 then [TooShort]
              else if length username > 30 then [TooLong]
              else []);
           errors2 = (if isdigit dg username then errors1 @ [OnlyDigits] else errors1);
           errors3 = (if isalnum an username then errors2 else errors2 @ [NotAlphanumeric])
       in \<lparr>valid = (length errors3 = 0), errors = errors3\<rparr>)"

text \<open>Python's three classifications on the ASCII code points, for concrete runs.\<close>

definition ascii_isspace :: "char \<Rightarrow> bool" where
  "ascii_isspace c =
    (let n = (of_char c :: nat) in (9 \<le> n \<and> n \<le> 13) \<or> (28 \<le> n \<and> n \<le> 32))"

definition ascii_isdigit :: "char \<Rightarrow> bool" where
  "ascii_isdigit c = (let n = (of_char c :: nat) in 48 \<le> n \<and> n \<le> 57)"

definition ascii_isalnum :: "char \<Rightarrow> bool" where
  "ascii_isalnum c =
    (let n = (of_char c :: nat)
     in (48 \<le> n \<and> n \<le> 57) \<or> (65 \<le> n \<and> n \<le> 90) \<or> (97 \<le> n \<and> n \<le> 122))"

section \<open>The testing summary\<close>

text \<open>
  \<open>final_testing_summary.py\<close>. The scan \<open>project_root.rglob("*.py")\<close> is the function's
  only reading of the file tree: the tree enters the model as the list of the strings
  \<open>str(relative_path)\<close> of the paths the scan yields, in the order it yields them.
\<close>

text \<open>\<open>sub in s\<close> on strings: \<open>sub\<close> occurs in \<open>s\<close> as a contiguous piece.\<close>

fun starts_with :: "string \<Rightarrow> string \<Rightarrow> bool" where
  "starts_with [] s = True"
| "starts_with (c # sub) [] = False"
| "starts_with (c # sub) (d # s) = (c = d \<and> starts_with sub s)"

fun contains :: "string \<Rightarrow> string \<Rightarrow> bool" where
  "contains sub [] = (sub = [])"
| "contains sub (c # s) = (starts_with sub (c # s) \<or> contains sub s)"

record components =
  models :: "string list"
  repositories :: "string list"
  services :: "string list"
  utils :: "string list"
  api :: "string list"
  database :: "string list"
  config :: "string list"
  tests :: "string list"

definition empty_components :: components where
  "empty_components =
    \<lparr>models = [], repositories = [], services = [], utils = [], api = [], database = [],
     config = [], tests = []\<rparr>"

text \<open>The body of the scanning loop: the chain of \<open>if\<close>/\<open>elif\<close> on one path.\<close>

definition scan_file :: "components \<Rightarrow> string \<Rightarrow> components" where
  "scan_file cs relative_path =
    (if contains ''models'' relative_path then
       cs\<lparr>models := models cs @ [relative_path]\<rparr>
     else if contains ''repository'' relative_path then
       cs\<lparr>repositories := repositories cs @ [relative_path]\<rparr>
     else if contains ''services'' relative_path then
       cs\<lparr>services := services cs @ [relative_path]\<rparr>
     else if contains ''utils'' relative_path then
       cs\<lparr>utils := utils cs @ [relative_path]\<rparr>
     else if contains ''main.py'' relative_path \<or> contains ''api'' relative_path then
       cs\<lparr>api := api cs @ [relative_path]\<rparr>
     else if contains ''database'' relative_path \<or> contains ''db'' relative_path then
       cs\<lparr>database := database cs @ [relative_path]\<rparr>
     else if contains ''config'' relative_path then
       cs\<lparr>config := config cs @ [relative_path]\<rparr>
     else if contains ''test'' relative_path then
       cs\<lparr>tests := tests cs @ [relative_path]\<rparr>
     else cs)"

definition analyze_project_structure :: "string list \<Rightarrow> components" where
  "analyze_project_structure tree = foldl scan_file empty_components tree"

text \<open>\<open>components.items()\<close>: the eight lists under their keys, in the dict's order.\<close>

definition items :: "components \<Rightarrow> (string \<times> string list) list" where
  "items cs =
    [(''models'', models cs), (''repositories'', repositories cs), (''services'', services cs),
     (''utils'', utils cs), (''api'', api cs), (''database'', database cs),
     (''config'', config cs), (''tests'', tests cs)]"

text \<open>
  The order of the chain as the claim on the classification words it: the eight rules,
  each with the list it feeds, and the rule that decides a path, the first one in this
  order that matches. The source's loop (\<open>scan_file\<close>) is compared with it below.
\<close>

definition rules :: "(string \<times> (string \<Rightarrow> bool)) list" where
  "rules =
    [(''models'', contains ''models''),
     (''repositories'', contains ''repository''),
     (''services'', contains ''services''),
     (''utils'', contains ''utils''),
     (''api'', \<lambda>p. contains ''main.py'' p \<or> contains ''api'' p),
     (''database'', \<lambda>p. contains ''database'' p \<or> contains ''db'' p),
     (''config'', contains ''config''),
     (''tests'', contains ''test'')]"

definition first_match :: "string \<Rightarrow> string option" where
  "first_match p = map_option fst (find (\<lambda>rule. snd rule p) rules)"

text \<open>
  \<open>generate_testing_strategy\<close>: a dict of six entries. The field \<open>focus\<close> of an entry
  (Russian text, only printed) is left out.
\<close>

record strategy_entry =
  test_type :: string
  techniques :: "string list"
  priority :: string
  files :: "string list"

definition generate_testing_strategy :: "string list \<Rightarrow> (string \<times> strategy_entry) list" where
  "generate_testing_strategy tree =
    (let cs = analyze_project_structure tree in
     [(''models'',
       \<lparr>test_type = ''Unit Testing'',
        techniques = [''Black-box'', ''Boundary Value Analysis''],
        priority = ''HIGH'', files = models cs\<rparr>),
      (''repositories'',
       \<lparr>test_type = ''Unit + Integration Testing'',
        techniques = [''White-box'', ''Path Coverage'', ''Mock Testing''],
        priority = ''HIGH'', files = repositories cs\<rparr>),
      (''services'',
       \<lparr>test_type = ''Unit + Integration Testing'',
        techniques = [''White-box'', ''Decision Coverage'', ''Error Handling''],
        priority = ''HIGH'', files = services cs\<rparr>),
      (''utils'',
       \<lparr>test_type = ''Unit Testing'',
        techniques = [''Black-box'', ''Equivalence Partitioning''],
        priority = ''MEDIUM'', files = utils cs\<rparr>),
      (''api'',
       \<lparr>test_type = ''Integration + System Testing'',
        techniques = [''End-to-End'', ''API Testing''],
        priority = ''HIGH'', files = api cs\<rparr>),
      (''database'',
       \<lparr>test_type = ''Integration Testing'',
        techniques = [''Database Testing'', ''Transaction Testing''],
        priority = ''MEDIUM'', files = database cs\<rparr>)])"

subsection \<open>Python's true division and its printing\<close>

text \<open>
  \<open>a / b\<close> on two Python integers raises \<open>ZeroDivisionError\<close> for \<open>b = 0\<close> and
  otherwise returns a float: the IEEE double nearest to the quotient, ties going to the
  even significand, or \<open>OverflowError\<close> when the quotient is too large for a double. A
  float is kept here as the rational number it is (the sign of a zero is not kept).
  \<open>nearest_double\<close> rounds the quotient of two positive integers: \<open>e\<close> is the binary
  exponent of the quotient, \<open>s\<close> the exponent of the last place of a double there (53
  bits, not below the last place of the subnormal numbers), \<open>m\<close> the quotient in units
  of that place, rounded.
\<close>

fun bit_length :: "nat \<Rightarrow> nat" where
  "bit_length n = (if n = 0 then 0 else Suc (bit_length (n div 2)))"

declare bit_length.simps [simp del]

definition round_half_even :: "int \<Rightarrow> int \<Rightarrow> int" where
  "round_half_even n d =
    (let q = n div d; r = n mod d
     in if 2 * r < d then q
        else if 2 * r > d then q + 1
        else if even q then q
        else q + 1)"

definition pow2 :: "int \<Rightarrow> rat" where
  "pow2 k = (if 0 \<le> k then 2 ^ nat k else 1 / 2 ^ nat (- k))"

definition nearest_double :: "int \<Rightarrow> int \<Rightarrow> rat" where
  "nearest_double a b =
    (let d = int (bit_length (nat a)) - int (bit_length (nat b));
         e = (if (if 0 \<le> d then b * 2 ^ nat d \<le> a else b \<le> a * 2 ^ nat (- d))
              then d else d - 1);
         s = max (e - 52) (- 1074);
         m = (if 0 \<le> s then round_half_even a (b * 2 ^ nat s)
              else round_half_even (a * 2 ^ nat (- s)) b)
     in of_int m * pow2 s)"

definition py_truediv :: "int \<Rightarrow> int \<Rightarrow> py_error + rat" where
  "py_truediv a b =
    (if b = 0 then Inl ZeroDivisionError
     else
       let x = nearest_double \<bar>a\<bar> \<bar>b\<bar>
       in if 2 ^ 1024 \<le> x then Inl OverflowError
          else Inr (if (a < 0) = (b < 0) then x else - x))"

text \<open>
  The format \<open>:.1f\<close> of a float: its value rounded to one decimal place, ties going to
  the even digit, written with a sign when negative, the integer part in decimal
  digits, a point and one digit.
\<close>

fun decimal :: "nat \<Rightarrow> string" where
  "decimal n =
    (if n < 10 then [char_of (48 + n)] else decimal (n div 10) @ [char_of (48 + n mod 10)])"

declare decimal.simps [simp del]

definition format_1f :: "rat \<Rightarrow> string" where
  "format_1f x =
    (let (n, d) = quotient_of (\<bar>x\<bar> * 10);
         t = nat (round_half_even n d)
     in (if x < 0 then ''-'' else []) @ decimal (t div 10) @ ''.'' @ decimal (t mod 10))"

subsection \<open>The metrics and the report\<close>

text \<open>
  \<open>calculate_testing_metrics\<close>. The last field is \<open>sum(...) / len(...)\<close> over the
  literal table of estimated coverage: a true division of two integers, so a float; an
  exception of the division would end the function.
\<close>

record metrics =
  total_files :: nat
  high_priority_files :: nat
  estimated_coverage :: "(string \<times> int) list"
  average_coverage :: rat

definition calculate_testing_metrics :: "string list \<Rightarrow> py_error + metrics" where
  "calculate_testing_metrics tree =
    (let strategy = generate_testing_strategy tree;
         total = sum_list (map (\<lambda>component. length (files component)) (map snd strategy));
         high = sum_list (map (\<lambda>component. length (files component))
                  (filter (\<lambda>component. priority component = ''HIGH'') (map snd strategy)));
         estimated =
           [(''models'', 85), (''repositories'', 75), (''services'', 70), (''utils'', 90),
            (''api'', 60), (''database'', 50)]
     in case py_truediv (sum_list (map snd estimated)) (int (length estimated)) of
          Inl e \<Rightarrow> Inl e
        | Inr average \<Rightarrow>
            Inr \<lparr>total_files = total,
                 high_priority_files = high,
                 estimated_coverage = estimated,
                 average_coverage = average\<rparr>)"

text \<open>
  \<open>print_comprehensive_report\<close>, its three sections that are computed from the scan
  (the later sections print literals). Section 1 prints, for each component with files,
  its name, the number of its files, its first three files and, past three files, how
  many more there are; section 2 prints, for each strategy entry with files, its name,
  type, techniques, priority and number of files; section 3 prints the two counts, the
  average in the format \<open>:.1f\<close> and the table of estimated coverage.
\<close>

definition structure_section ::
  "string list \<Rightarrow> (string \<times> nat \<times> string list \<times> nat option) list" where
  "structure_section tree =
    map (\<lambda>(component, fs).
          (component, length fs, take 3 fs,
           if length fs > 3 then Some (length fs - 3) else None))
      (filter (\<lambda>(component, fs). fs \<noteq> []) (items (analyze_project_structure tree)))"

definition strategy_section ::
  "string list \<Rightarrow> (string \<times> string \<times> string list \<times> string \<times> nat) list" where
  "strategy_section tree =
    map (\<lambda>(component, details).
          (component, test_type details, techniques details, priority details,
           length (files details)))
      (filter (\<lambda>(component, details). files details \<noteq> []) (generate_testing_strategy tree))"

definition metrics_section ::
  "string list \<Rightarrow> py_error + (nat \<times> nat \<times> string \<times> (string \<times> int) list)" where
  "metrics_section tree =
    (case calculate_testing_metrics tree of
       Inl e \<Rightarrow> Inl e
     | Inr m \<Rightarrow>
         Inr (total_files m, high_priority_files m, format_1f (average_coverage m),
              estimated_coverage m))"

definition print_comprehensive_report ::
  "string list \<Rightarrow>
     py_error +
       ((string \<times> nat \<times> string list \<times> nat option) list
         \<times> (string \<times> string \<times> string list \<times> string \<times> nat) list
         \<times> (nat \<times> nat \<times> string \<times> (string \<times> int) list))" where
  "print_comprehensive_report tree =
    (case metrics_section tree of
       Inl e \<Rightarrow> Inl e
     | Inr section3 \<Rightarrow> Inr (structure_section tree, strategy_section tree, section3))"

text \<open>
  The script run on a file system. \<open>project_root.rglob("*.py")\<close> yields the paths of the
  root that match, and nothing when the root is not a directory.
\<close>

definition rglob_py :: "file_system \<Rightarrow> string list" where
  "rglob_py fs = (if root_is_dir fs then py_paths fs else [])"

definition final_summary_main ::
  "file_system \<Rightarrow>
     py_error +
       ((string \<times> nat \<times> string list \<times> nat option) list
         \<times> (string \<times> string \<times> string list \<times> string \<times> nat) list
         \<times> (nat \<times> nat \<times> string \<times> (string \<times> int) list))" where
  "final_summary_main fs = print_comprehensive_report (rglob_py fs)"

section \<open>Facts of the graph\<close>

lemma edge_pairs_eq:
  "edge_pairs =
    [(1, 2), (2, 3), (2, 4), (4, 5), (5, 6), (5, 9), (6, 7), (7, 8), (7, 9),
     (9, 10), (10, 9), (9, 11), (11, 12), (12, 13), (13, 14)]"
  by (simp add: edge_pairs_def edges_def)

lemma node_ids_eq: "node_ids = [1, 2, 3, 4, 5, 6, 7, 8, 9, 10, 11, 12, 13, 14]"
  by (simp add: node_ids_def nodes_def)

lemma edge_iff:
  "(x, y) \<in> set edge_pairs \<longleftrightarrow>
     (x = 1 \<and> y = 2) \<or> (x = 2 \<and> y = 3) \<or> (x = 2 \<and> y = 4) \<or> (x = 4 \<and> y = 5) \<or>
     (x = 5 \<and> y = 6) \<or> (x = 5 \<and> y = 9) \<or> (x = 6 \<and> y = 7) \<or> (x = 7 \<and> y = 8) \<or>
     (x = 7 \<and> y = 9) \<or> (x = 9 \<and> y = 10) \<or> (x = 10 \<and> y = 9) \<or> (x = 9 \<and> y = 11) \<or>
     (x = 11 \<and> y = 12) \<or> (x = 12 \<and> y = 13) \<or> (x = 13 \<and> y = 14)"
  by (simp add: edge_pairs_eq)

lemma edge_pairs_length: "length edge_pairs = length edges"
  by (simp add: edge_pairs_def)

lemma successors_eq:
  "map successors node_ids = [[2], [3, 4], [], [5], [6, 9], [7], [8, 9], [], [10, 11], [9], [12], [13], [14], []]"
  by (simp add: successors_def node_ids_eq edge_pairs_eq)

lemma is_walk_tl: "is_walk (x # rest) \<Longrightarrow> is_walk rest"
  by (cases rest) simp_all

lemma succ_of_11: "(11, y) \<in> set edge_pairs \<Longrightarrow> y = 12"
  by (simp add: edge_iff)

lemma succ_of_12: "(12, y) \<in> set edge_pairs \<Longrightarrow> y = 13"
  by (simp add: edge_iff)

lemma succ_of_13: "(13, y) \<in> set edge_pairs \<Longrightarrow> y = 14"
  by (simp add: edge_iff)

lemma no_succ_of_14: "(14, y) \<notin> set edge_pairs"
  by (simp add: edge_iff)

lemma no_succ_of_3: "(3, y) \<notin> set edge_pairs"
  by (simp add: edge_iff)

lemma no_succ_of_8: "(8, y) \<notin> set edge_pairs"
  by (simp add: edge_iff)

lemma pred_of_12: "(x, 12) \<in> set edge_pairs \<Longrightarrow> x = 11"
  by (simp add: edge_iff)

lemma pred_of_13: "(x, 13) \<in> set edge_pairs \<Longrightarrow> x = 12"
  by (simp add: edge_iff)

lemma pred_of_14: "(x, 14) \<in> set edge_pairs \<Longrightarrow> x = 13"
  by (simp add: edge_iff)

text \<open>From node 11 on the graph is a chain: what follows a node of the chain is fixed.\<close>

lemma walk_from_14: "is_walk (14 # rest) \<Longrightarrow> rest = []"
  using no_succ_of_14 by (cases rest) simp_all

lemma walk_from_13: "is_walk (13 # rest) \<Longrightarrow> rest = [] \<or> rest = [14]"
proof (cases rest)
  case Nil
  then show ?thesis by simp
next
  case (Cons y r)
  assume w: "is_walk (13 # rest)"
  with Cons have y: "y = 14" using succ_of_13 by simp
  from w Cons have "is_walk (y # r)" by simp
  with y have "r = []" using walk_from_14 by blast
  with y Cons show ?thesis by simp
qed

lemma walk_from_12: "is_walk (12 # rest) \<Longrightarrow> rest = [] \<or> rest = [13] \<or> rest = [13, 14]"
proof (cases rest)
  case Nil
  then show ?thesis by simp
next
  case (Cons y r)
  assume w: "is_walk (12 # rest)"
  with Cons have y: "y = 13" using succ_of_12 by simp
  from w Cons have "is_walk (y # r)" by simp
  with y have "r = [] \<or> r = [14]" using walk_from_13 by blast
  with y Cons show ?thesis by auto
qed

lemma walk_from_11:
  "is_walk (11 # rest) \<Longrightarrow>
     rest = [] \<or> rest = [12] \<or> rest = [12, 13] \<or> rest = [12, 13, 14]"
proof (cases rest)
  case Nil
  then show ?thesis by simp
next
  case (Cons y r)
  assume w: "is_walk (11 # rest)"
  with Cons have y: "y = 12" using succ_of_11 by simp
  from w Cons have "is_walk (y # r)" by simp
  with y have "r = [] \<or> r = [13] \<or> r = [13, 14]" using walk_from_12 by blast
  with y Cons show ?thesis by auto
qed

lemma walk_from_exception:
  assumes "is_walk (x # rest)" and "x = 3 \<or> x = 8"
  shows "rest = []"
proof (cases rest)
  case Nil
  then show ?thesis .
next
  case (Cons y r)
  with assms(1) have "(x, y) \<in> set edge_pairs" by simp
  with assms(2) show ?thesis using no_succ_of_3 no_succ_of_8 by blast
qed

text \<open>
  A walk that ends at node 14 and does not start inside the chain 12, 13, 14 ends with
  11, 12, 13, 14, and none of the four occurs before: induction on the walk, whose first
  node is either 11 (then the chain fixes the rest) or a node whose successor is again
  outside 12, 13, 14.
\<close>

lemma walk_to_return:
  "is_walk p \<Longrightarrow> p \<noteq> [] \<Longrightarrow> last p = 14 \<Longrightarrow> hd p \<noteq> 12 \<Longrightarrow> hd p \<noteq> 13 \<Longrightarrow> hd p \<noteq> 14 \<Longrightarrow>
     \<exists>pre. p = pre @ [11, 12, 13, 14] \<and>
       11 \<notin> set pre \<and> 12 \<notin> set pre \<and> 13 \<notin> set pre \<and> 14 \<notin> set pre"
proof (induction p)
  case Nil
  then show ?case by simp
next
  case (Cons x rest)
  show ?case
  proof (cases "x = 11")
    case True
    with Cons.prems(1) have "rest = [] \<or> rest = [12] \<or> rest = [12, 13] \<or> rest = [12, 13, 14]"
      using walk_from_11 by blast
    with True Cons.prems(3) have "rest = [12, 13, 14]" by auto
    with True have "x # rest = [] @ [11, 12, 13, 14]" by simp
    then show ?thesis by fastforce
  next
    case False
    from Cons.prems have x: "x \<noteq> 12" "x \<noteq> 13" "x \<noteq> 14" by simp_all
    with Cons.prems(3) have ne: "rest \<noteq> []" by auto
    then obtain y r where rest: "rest = y # r" by (cases rest) auto
    with Cons.prems(1) have e: "(x, y) \<in> set edge_pairs" and w: "is_walk rest" by simp_all
    from e False have y12: "y \<noteq> 12" using pred_of_12 by blast
    from e x(1) have y13: "y \<noteq> 13" using pred_of_13 by blast
    from e x(2) have y14: "y \<noteq> 14" using pred_of_14 by blast
    from Cons.prems(3) ne have l: "last rest = 14" by simp
    from rest y12 y13 y14 have h: "hd rest \<noteq> 12" "hd rest \<noteq> 13" "hd rest \<noteq> 14" by simp_all
    from Cons.IH [OF w ne l h] obtain pre
      where pre: "rest = pre @ [11, 12, 13, 14]" "11 \<notin> set pre" "12 \<notin> set pre"
        "13 \<notin> set pre" "14 \<notin> set pre" by blast
    from pre False x
    have "x # rest = (x # pre) @ [11, 12, 13, 14] \<and> 11 \<notin> set (x # pre) \<and> 12 \<notin> set (x # pre)
        \<and> 13 \<notin> set (x # pre) \<and> 14 \<notin> set (x # pre)"
      by simp
    then show ?thesis by blast
  qed
qed

text \<open>
  A walk through an exception node stops there, and node 12 is not on it: node 12 can
  only be followed by 13 and 14.
\<close>

lemma walk_exception:
  "is_walk p \<Longrightarrow> 3 \<in> set p \<or> 8 \<in> set p \<Longrightarrow> 12 \<notin> set p \<and> (last p = 3 \<or> last p = 8)"
proof (induction p)
  case Nil
  then show ?case by simp
next
  case (Cons x rest)
  show ?case
  proof (cases "x = 3 \<or> x = 8")
    case True
    with Cons.prems(1) have "rest = []" using walk_from_exception by blast
    with True show ?thesis by auto
  next
    case False
    with Cons.prems(2) have in_rest: "3 \<in> set rest \<or> 8 \<in> set rest" by auto
    then have ne: "rest \<noteq> []" by auto
    from Cons.prems(1) have w: "is_walk rest" by (rule is_walk_tl)
    from Cons.IH [OF w in_rest] have ih: "12 \<notin> set rest" "last rest = 3 \<or> last rest = 8"
      by simp_all
    have "x \<noteq> 12"
    proof
      assume "x = 12"
      with Cons.prems(1) have "rest = [] \<or> rest = [13] \<or> rest = [13, 14]"
        using walk_from_12 by blast
      with in_rest show False by auto
    qed
    with ih ne show ?thesis by simp
  qed
qed

lemma count_components_eq: "count_components = 1"
  by (simp add: count_components_def node_ids_eq nodes_def component_of_def neighbours_def
      successors_def predecessors_def edge_pairs_eq)

section \<open>The claims on the control-flow graph\<close>

text \<open>
  C1 (as amended). The graph of \<open>create_flow_graph\<close> has 14 nodes, 15 edges, one connected
  component and 4 predicate nodes, as the annotation says. On these figures the formula
  \<open>M = E - N + 2P\<close> gives 15 - 14 + 2 = 3, the value the annotation prints for it; the
  count of predicate nodes plus one gives 5. The two figures differ.
\<close>

theorem cyclomatic_formula_is_3:
  "int (length nodes) = annotated_N \<and> annotated_N = 14
   \<and> int (length edges) = annotated_E \<and> annotated_E = 15
   \<and> int count_components = annotated_P \<and> annotated_P = 1
   \<and> int (length predicate_ids) = annotated_predicates \<and> annotated_predicates = 4
   \<and> cyclomatic (int (length edges)) (int (length nodes)) (int count_components) = 3
   \<and> annotated_M_formula = 3
   \<and> int (length predicate_ids) + 1 = 5
   \<and> annotated_M_predicates = 5"
  by (simp add: count_components_eq cyclomatic_def nodes_def edges_def predicate_ids_def
      annotated_N_def annotated_E_def annotated_P_def annotated_predicates_def
      annotated_M_formula_def annotated_M_predicates_def)

text \<open>
  C1 as stated fails: on the graph's own counts the formula does not give 5, and does
  not agree with the count of predicate nodes plus one.
\<close>

theorem cyclomatic_formula_not_5:
  "\<not> (cyclomatic (int (length edges)) (int (length nodes)) (int count_components) = 5
      \<and> cyclomatic (int (length edges)) (int (length nodes)) (int count_components)
          = int (length predicate_ids) + 1)"
  by (simp add: count_components_eq cyclomatic_def nodes_def edges_def)

text \<open>
  C2. The five paths of the annotation, evaluated on the edge list: all five start at
  node 1 and end at a node without successors (3, 14, 8, 14, 14), and paths 1, 2, 3
  and 5 are walks. Path 4 is not a walk: its step from node 10 to node 11 is no edge,
  the only edge out of node 10 is the loop's way back to node 9. With that step
  written out (10, 9, 11) the path is a walk.
\<close>

theorem basis_path_4_not_a_walk:
  "map is_walk basis_paths = [True, True, True, False, True]
   \<and> map hd basis_paths = [1, 1, 1, 1, 1]
   \<and> map last basis_paths = [3, 14, 8, 14, 14]
   \<and> map (\<lambda>p. successors (last p)) basis_paths = [[], [], [], [], []]
   \<and> (10, 11) \<notin> set edge_pairs
   \<and> successors 10 = [9]
   \<and> is_walk [1, 2, 4, 5, 6, 7, 9, 10, 9, 11, 12, 13, 14]"
  by (simp add: basis_paths_def successors_def edge_pairs_eq)

text \<open>
  C5. A walk of the graph from the entry node 1 to the return node 14 ends with the
  nodes 11 (set \<open>updated_at\<close>), 12 (commit), 13 (refresh), 14 in this order, and none
  of the four occurs earlier on it: the return is reached only after one commit
  followed by one refresh.
\<close>

theorem return_after_commit_refresh:
  assumes "is_walk p" and "p \<noteq> []" and "hd p = 1" and "last p = 14"
  shows "\<exists>pre. p = pre @ [11, 12, 13, 14] \<and>
           11 \<notin> set pre \<and> 12 \<notin> set pre \<and> 13 \<notin> set pre \<and> 14 \<notin> set pre"
proof -
  from assms(3) have "hd p \<noteq> 12" "hd p \<noteq> 13" "hd p \<noteq> 14" by simp_all
  with assms(1,2,4) show ?thesis by (rule walk_to_return)
qed

theorem return_after_commit_refresh_witness:
  "is_walk [1, 2, 4, 5, 9, 11, 12, 13, 14]
   \<and> hd [1, 2, 4, 5, 9, 11, 12, 13, 14] = (1::nat)
   \<and> last [1, 2, 4, 5, 9, 11, 12, 13, 14] = (14::nat)
   \<and> (\<exists>pre. [1, 2, 4, 5, 9, 11, 12, 13, 14] = pre @ [11, 12, 13, 14::nat] \<and>
           11 \<notin> set pre \<and> 12 \<notin> set pre \<and> 13 \<notin> set pre \<and> 14 \<notin> set pre)"
proof -
  have w: "is_walk [1, 2, 4, 5, 9, 11, 12, 13, 14]" by (simp add: edge_pairs_eq)
  have n: "[1, 2, 4, 5, 9, 11, 12, 13, 14] \<noteq> ([]::nat list)" by simp
  have h: "hd [1, 2, 4, 5, 9, 11, 12, 13, 14] = (1::nat)" by simp
  have l: "last [1, 2, 4, 5, 9, 11, 12, 13, 14] = (14::nat)" by simp
  from return_after_commit_refresh [OF w n h l] w h l show ?thesis by blast
qed

text \<open>
  C6. The exception nodes 3 and 8 have no outgoing edge. A walk of the graph that
  passes an exception node ends at it and never visits node 12 (\<open>session.commit()\<close>).
\<close>

theorem exception_paths_never_commit:
  "exception_ids = [3, 8]
   \<and> map successors exception_ids = [[], []]
   \<and> (\<forall>p. is_walk p \<and> (3 \<in> set p \<or> 8 \<in> set p) \<longrightarrow>
          12 \<notin> set p \<and> (last p = 3 \<or> last p = 8))"
proof -
  have "exception_ids = [3, 8]" by (simp add: exception_ids_def)
  moreover have "map successors exception_ids = [[], []]"
    by (simp add: exception_ids_def successors_def edge_pairs_eq)
  moreover have "\<forall>p. is_walk p \<and> (3 \<in> set p \<or> 8 \<in> set p) \<longrightarrow>
          12 \<notin> set p \<and> (last p = 3 \<or> last p = 8)"
    using walk_exception by blast
  ultimately show ?thesis by blast
qed

theorem exception_paths_never_commit_witness:
  "is_walk [1, 2, 4, 5, 6, 7, 8] \<and> 8 \<in> set [1, 2, 4, 5, 6, 7, 8::nat]
   \<and> 12 \<notin> set [1, 2, 4, 5, 6, 7, 8::nat] \<and> last [1, 2, 4, 5, 6, 7, 8] = (8::nat)"
proof -
  have w: "is_walk [1, 2, 4, 5, 6, 7, 8]" by (simp add: edge_pairs_eq)
  have m: "8 \<in> set [1, 2, 4, 5, 6, 7, 8::nat]" by simp
  from exception_paths_never_commit w m
  have "12 \<notin> set [1, 2, 4, 5, 6, 7, 8::nat]" by blast
  with w m show ?thesis by simp
qed

text \<open>
  C7. The nodes drawn as predicate nodes are exactly 2, 5, 7 and 9, four of them: the
  null check, the test for \<open>email\<close> in the update data, the email-conflict check and the
  loop over the fields; they are also exactly the nodes of the edge list with two
  outgoing edges. The nodes drawn as exception nodes are exactly 3 and 8.
\<close>

theorem predicate_and_exception_nodes:
  "filter (\<lambda>n. node_kind_of n = PredicateNode) node_ids = [2, 5, 7, 9]
   \<and> length (filter (\<lambda>n. node_kind_of n = PredicateNode) node_ids) = 4
   \<and> filter (\<lambda>n. node_kind_of n = ExceptionNode) node_ids = [3, 8]
   \<and> node_text 2 = Some ''2. if user is None''
   \<and> node_text 5 = Some ''5. if 'email' in \<newline>update_data''
   \<and> node_text 7 = Some ''7. if existing_user and \<newline>existing_user.id != id''
   \<and> node_text 9 = Some ''9. for key, value in \<newline>update_data.items()''
   \<and> node_text 3 = Some ''3. raise HTTPException\<newline>(404)''
   \<and> node_text 8 = Some ''8. raise HTTPException\<newline>(400)''
   \<and> filter (\<lambda>n. length (successors n) = 2) node_ids = [2, 5, 7, 9]"
  by (simp add: node_kind_of_def node_ids_eq exception_ids_def predicate_ids_def
      node_text_def nodes_def successors_def edge_pairs_eq)

section \<open>Facts of the scan\<close>

text \<open>
  One step of the loop appends the path to the list of the first rule that matches it
  and leaves the other lists as they are; the whole loop therefore filters the tree,
  list by list.
\<close>

lemma first_match_eq:
  "first_match p =
    (if contains ''models'' p then Some ''models''
     else if contains ''repository'' p then Some ''repositories''
     else if contains ''services'' p then Some ''services''
     else if contains ''utils'' p then Some ''utils''
     else if contains ''main.py'' p \<or> contains ''api'' p then Some ''api''
     else if contains ''database'' p \<or> contains ''db'' p then Some ''database''
     else if contains ''config'' p then Some ''config''
     else if contains ''test'' p then Some ''tests''
     else None)"
  by (simp add: first_match_def rules_def)

lemma scan_file_models:
  "models (scan_file cs p) = models cs @ (if first_match p = Some ''models'' then [p] else [])"
  by (simp add: scan_file_def first_match_eq)

lemma scan_file_repositories:
  "repositories (scan_file cs p) =
     repositories cs @ (if first_match p = Some ''repositories'' then [p] else [])"
  by (simp add: scan_file_def first_match_eq)

lemma scan_file_services:
  "services (scan_file cs p) = services cs @ (if first_match p = Some ''services'' then [p] else [])"
  by (simp add: scan_file_def first_match_eq)

lemma scan_file_utils:
  "utils (scan_file cs p) = utils cs @ (if first_match p = Some ''utils'' then [p] else [])"
  by (simp add: scan_file_def first_match_eq)

lemma scan_file_api:
  "api (scan_file cs p) = api cs @ (if first_match p = Some ''api'' then [p] else [])"
  by (simp add: scan_file_def first_match_eq)

lemma scan_file_database:
  "database (scan_file cs p) = database cs @ (if first_match p = Some ''database'' then [p] else [])"
  by (simp add: scan_file_def first_match_eq)

lemma scan_file_config:
  "config (scan_file cs p) = config cs @ (if first_match p = Some ''config'' then [p] else [])"
  by (simp add: scan_file_def first_match_eq)

lemma scan_file_tests:
  "tests (scan_file cs p) = tests cs @ (if first_match p = Some ''tests'' then [p] else [])"
  by (simp add: scan_file_def first_match_eq)

lemma fold_models:
  "models (foldl scan_file cs tree) = models cs @ filter (\<lambda>p. first_match p = Some ''models'') tree"
  by (induction tree arbitrary: cs) (simp_all add: scan_file_models)

lemma fold_repositories:
  "repositories (foldl scan_file cs tree) =
     repositories cs @ filter (\<lambda>p. first_match p = Some ''repositories'') tree"
  by (induction tree arbitrary: cs) (simp_all add: scan_file_repositories)

lemma fold_services:
  "services (foldl scan_file cs tree) =
     services cs @ filter (\<lambda>p. first_match p = Some ''services'') tree"
  by (induction tree arbitrary: cs) (simp_all add: scan_file_services)

lemma fold_utils:
  "utils (foldl scan_file cs tree) = utils cs @ filter (\<lambda>p. first_match p = Some ''utils'') tree"
  by (induction tree arbitrary: cs) (simp_all add: scan_file_utils)

lemma fold_api:
  "api (foldl scan_file cs tree) = api cs @ filter (\<lambda>p. first_match p = Some ''api'') tree"
  by (induction tree arbitrary: cs) (simp_all add: scan_file_api)

lemma fold_database:
  "database (foldl scan_file cs tree) =
     database cs @ filter (\<lambda>p. first_match p = Some ''database'') tree"
  by (induction tree arbitrary: cs) (simp_all add: scan_file_database)

lemma fold_config:
  "config (foldl scan_file cs tree) = config cs @ filter (\<lambda>p. first_match p = Some ''config'') tree"
  by (induction tree arbitrary: cs) (simp_all add: scan_file_config)

lemma fold_tests:
  "tests (foldl scan_file cs tree) = tests cs @ filter (\<lambda>p. first_match p = Some ''tests'') tree"
  by (induction tree arbitrary: cs) (simp_all add: scan_file_tests)

lemmas fold_fields =
  fold_models fold_repositories fold_services fold_utils fold_api fold_database fold_config
  fold_tests

lemma rule_names: "map fst rules =
  [''models'', ''repositories'', ''services'', ''utils'', ''api'', ''database'', ''config'', ''tests'']"
  by (simp add: rules_def)

lemma items_analyze:
  "items (analyze_project_structure tree) =
     map (\<lambda>name. (name, filter (\<lambda>p. first_match p = Some name) tree)) (map fst rules)"
  by (simp add: rule_names items_def analyze_project_structure_def fold_fields
      empty_components_def)

lemma distinct_rule_names: "distinct (map fst rules)"
  by (simp add: rule_names)

lemma length_rules: "length rules = 8"
  by (simp add: rules_def)

lemma nth_items:
  assumes "j < length rules"
  shows "snd (items (analyze_project_structure tree) ! j) =
           filter (\<lambda>p. first_match p = Some (fst (rules ! j))) tree"
  using assms by (simp add: items_analyze)

lemma at_most_one_name:
  "distinct ns \<Longrightarrow> length (filter (\<lambda>n. Q \<and> x = Some n) ns) \<le> 1"
proof (induction ns)
  case Nil
  then show ?case by simp
next
  case (Cons a ns)
  show ?case
  proof (cases "Q \<and> x = Some a")
    case True
    with Cons.prems have "filter (\<lambda>n. Q \<and> x = Some n) ns = []"
      by (auto simp: filter_empty_conv)
    with True show ?thesis by simp
  next
    case False
    with Cons show ?thesis by auto
  qed
qed

lemma in_at_most_one_list:
  "length (filter (\<lambda>(name, fs). p \<in> set fs) (items (analyze_project_structure tree))) \<le> 1"
proof -
  have "filter (\<lambda>(name, fs). p \<in> set fs) (items (analyze_project_structure tree)) =
        map (\<lambda>name. (name, filter (\<lambda>p. first_match p = Some name) tree))
          (filter (\<lambda>n. p \<in> set tree \<and> first_match p = Some n) (map fst rules))"
    unfolding items_analyze filter_map by (simp add: comp_def)
  then show ?thesis
    using at_most_one_name [OF distinct_rule_names, of "p \<in> set tree" "first_match p"] by simp
qed

lemma first_match_index:
  assumes "first_match p = Some name"
  shows "\<exists>k < length rules. name = fst (rules ! k) \<and> (\<forall>i < k. \<not> snd (rules ! i) p)"
proof -
  have fm: "first_match p = map_option fst (find (\<lambda>r. snd r p) rules)"
    by (simp add: first_match_def)
  from assms fm obtain r where r: "find (\<lambda>r. snd r p) rules = Some r" and n: "name = fst r"
    by (cases "find (\<lambda>r. snd r p) rules") simp_all
  from r have "\<exists>k < length rules. snd (rules ! k) p \<and> r = rules ! k \<and> (\<forall>i < k. \<not> snd (rules ! i) p)"
    by (simp only: find_Some_iff)
  with n show ?thesis by blast
qed

lemma earlier_rule_wins:
  assumes "i < j" and "j < length rules" and "snd (rules ! i) p"
  shows "p \<notin> set (snd (items (analyze_project_structure tree) ! j))"
proof
  assume "p \<in> set (snd (items (analyze_project_structure tree) ! j))"
  with assms(2) have "first_match p = Some (fst (rules ! j))" by (simp add: nth_items)
  then obtain k where k: "k < length rules" "fst (rules ! j) = fst (rules ! k)"
      "\<forall>i < k. \<not> snd (rules ! i) p"
    using first_match_index by blast
  from k(1,2) assms(2) have "k = j"
    using distinct_rule_names nth_eq_iff_index_eq [of "map fst rules" j k] by simp
  with k(3) assms(1,3) show False by blast
qed

lemma lists_disjoint:
  assumes "i < length rules" and "j < length rules" and "i \<noteq> j"
  shows "set (snd (items (analyze_project_structure tree) ! i))
           \<inter> set (snd (items (analyze_project_structure tree) ! j)) = {}"
proof -
  have "fst (rules ! i) \<noteq> fst (rules ! j)"
    using assms distinct_rule_names nth_eq_iff_index_eq [of "map fst rules" i j] by simp
  with assms(1,2) show ?thesis by (auto simp: nth_items)
qed

section \<open>The claim on the username validator\<close>

text \<open>
  C3. For every string \<open>u\<close>, whatever the tables of whitespace, digit and alphanumeric
  characters are, the field \<open>valid\<close> of \<open>validate_username u\<close> is true exactly when \<open>u\<close>
  is not empty after stripping, its length is between 2 and 30, it does not consist of
  digits only and it is alphanumeric; and \<open>valid\<close> is true exactly when the list
  \<open>errors\<close> is empty.
\<close>

theorem validate_username_valid_iff:
  "(valid (validate_username sp dg an u) \<longleftrightarrow>
      strip sp u \<noteq> [] \<and> 2 \<le> length u \<and> length u \<le> 30 \<and> \<not> list_all dg u \<and> isalnum an u)
   \<and> (valid (validate_username sp dg an u) \<longleftrightarrow> errors (validate_username sp dg an u) = [])"
proof (cases "u = [] \<or> strip sp u = []")
  case True
  moreover have "strip sp [] = []" by (simp add: strip_def)
  ultimately have "strip sp u = []" by auto
  with True show ?thesis by (simp add: validate_username_def)
next
  case False
  then have "u \<noteq> []" "strip sp u \<noteq> []" by simp_all
  then show ?thesis
    by (simp add: validate_username_def Let_def isdigit_def)
qed

text \<open>The theorem at the name \<open>user123\<close> of the tests, with the ASCII tables.\<close>

theorem validate_username_valid_iff_witness:
  "valid (validate_username ascii_isspace ascii_isdigit ascii_isalnum ''user123'')
   \<and> errors (validate_username ascii_isspace ascii_isdigit ascii_isalnum ''user123'') = []
   \<and> strip ascii_isspace ''user123'' \<noteq> []
   \<and> \<not> list_all ascii_isdigit ''user123''
   \<and> isalnum ascii_isalnum ''user123''"
proof -
  have s: "strip ascii_isspace ''user123'' \<noteq> []"
    by (simp add: strip_def ascii_isspace_def)
  have d: "\<not> list_all ascii_isdigit ''user123''"
    by (simp add: ascii_isdigit_def)
  have a: "isalnum ascii_isalnum ''user123''"
    by (simp add: isalnum_def ascii_isalnum_def)
  have l: "2 \<le> length ''user123'' \<and> length ''user123'' \<le> 30"
    by simp
  from validate_username_valid_iff [of ascii_isspace ascii_isdigit ascii_isalnum "''user123''"]
    s d a l
  have "valid (validate_username ascii_isspace ascii_isdigit ascii_isalnum ''user123'')"
    and "errors (validate_username ascii_isspace ascii_isdigit ascii_isalnum ''user123'') = []"
    by blast+
  with s d a show ?thesis by blast
qed

section \<open>Facts of the metrics\<close>

lemma truediv_430_6: "py_truediv 430 6 = Inr (5043093332732587 / 70368744177664)"
  by code_simp

lemma format_average: "format_1f (5043093332732587 / 70368744177664) = ''71.7''"
  by code_simp

lemma calculate_testing_metrics_eq:
  "calculate_testing_metrics tree =
     Inr \<lparr>total_files =
            length (models (analyze_project_structure tree))
            + length (repositories (analyze_project_structure tree))
            + length (services (analyze_project_structure tree))
            + length (utils (analyze_project_structure tree))
            + length (api (analyze_project_structure tree))
            + length (database (analyze_project_structure tree)),
          high_priority_files =
            length (models (analyze_project_structure tree))
            + length (repositories (analyze_project_structure tree))
            + length (services (analyze_project_structure tree))
            + length (api (analyze_project_structure tree)),
          estimated_coverage =
            [(''models'', 85), (''repositories'', 75), (''services'', 70), (''utils'', 90),
             (''api'', 60), (''database'', 50)],
          average_coverage = 5043093332732587 / 70368744177664\<rparr>"
  by (simp add: calculate_testing_metrics_def generate_testing_strategy_def Let_def
      truediv_430_6)

lemma flow_graph_main_eq:
  "flow_graph_main fs =
     (if root_is_dir fs then
        Inr \<lparr>saved = [(''flow_graph.png'', FlowGraph create_flow_graph),
                      (''complexity_analysis.png'', ComplexityAnalysis create_complexity_analysis)],
             printed = [GraphsSaved, FlowGraphFile, ComplexityAnalysisFile]\<rparr>
      else Inl FileNotFoundError)"
  by (simp add: flow_graph_main_def savefig_def)

section \<open>The claims on the testing summary\<close>

text \<open>
  C4 (as amended). Only \<open>final_testing_summary.py\<close> scans the file tree: its report is
  computed from the scanned paths, and two trees can give two reports (a root without
  \<open>*.py\<close> files and a root with one file under \<open>models\<close> do). \<open>flow_graph_visualization.py\<close>
  scans nothing: replacing the scanned paths by any others never changes its result,
  on these two trees it saves and prints the same, and the file system reaches it only
  through the project root it saves into, where a missing directory raises
  \<open>FileNotFoundError\<close>; whenever it runs to its end, what it saves and prints are the
  two figures built from literals.
\<close>

theorem only_summary_scans_tree:
  "final_summary_main \<lparr>root_is_dir = True, py_paths = []\<rparr>
     \<noteq> final_summary_main \<lparr>root_is_dir = True, py_paths = [''app/models/user.py'']\<rparr>
   \<and> flow_graph_main \<lparr>root_is_dir = True, py_paths = []\<rparr>
     = flow_graph_main \<lparr>root_is_dir = True, py_paths = [''app/models/user.py'']\<rparr>
   \<and> flow_graph_main (fs\<lparr>py_paths := other_paths\<rparr>) = flow_graph_main fs
   \<and> flow_graph_main fs =
       (if root_is_dir fs then
          Inr \<lparr>saved = [(''flow_graph.png'', FlowGraph create_flow_graph),
                        (''complexity_analysis.png'',
                         ComplexityAnalysis create_complexity_analysis)],
               printed = [GraphsSaved, FlowGraphFile, ComplexityAnalysisFile]\<rparr>
        else Inl FileNotFoundError)"
proof -
  have "structure_section [] \<noteq> structure_section [''app/models/user.py'']"
    by (simp add: structure_section_def items_def analyze_project_structure_def
        scan_file_def empty_components_def)
  then have "final_summary_main \<lparr>root_is_dir = True, py_paths = []\<rparr>
     \<noteq> final_summary_main \<lparr>root_is_dir = True, py_paths = [''app/models/user.py'']\<rparr>"
    by (simp add: final_summary_main_def rglob_py_def print_comprehensive_report_def
        metrics_section_def calculate_testing_metrics_eq)
  moreover have "flow_graph_main \<lparr>root_is_dir = True, py_paths = []\<rparr>
     = flow_graph_main \<lparr>root_is_dir = True, py_paths = [''app/models/user.py'']\<rparr>"
    by (simp add: flow_graph_main_eq)
  moreover have "flow_graph_main (fs\<lparr>py_paths := other_paths\<rparr>) = flow_graph_main fs"
    by (simp add: flow_graph_main_eq)
  moreover note flow_graph_main_eq [of fs]
  ultimately show ?thesis by (intro conjI)
qed

text \<open>
  C4 as stated fails for \<open>flow_graph_visualization.py\<close>: no two file systems on which
  it runs to its end give it different output, and no two file systems that agree on
  whether the project root exists give it different results, whatever their trees hold.
\<close>

theorem flow_graph_ignores_tree:
  "\<not> (\<exists>fs1 fs2 out1 out2.
        flow_graph_main fs1 = Inr out1 \<and> flow_graph_main fs2 = Inr out2 \<and> out1 \<noteq> out2)
   \<and> \<not> (\<exists>fs1 fs2.
        root_is_dir fs1 = root_is_dir fs2 \<and> flow_graph_main fs1 \<noteq> flow_graph_main fs2)"
proof -
  have "\<not> (\<exists>fs1 fs2 out1 out2.
        flow_graph_main fs1 = Inr out1 \<and> flow_graph_main fs2 = Inr out2 \<and> out1 \<noteq> out2)"
    by (auto simp: flow_graph_main_eq split: if_splits)
  moreover have "\<not> (\<exists>fs1 fs2.
        root_is_dir fs1 = root_is_dir fs2 \<and> flow_graph_main fs1 \<noteq> flow_graph_main fs2)"
    by (simp add: flow_graph_main_eq)
  ultimately show ?thesis by (intro conjI)
qed

text \<open>
  C8 (as amended). For every scanned tree the metrics hold the same table of estimated
  coverage (models 85, repositories 75, services 70, utils 90, api 60, database 50),
  and the average is the float nearest to their mean 430/6, the double
  5043093332732587 / 2^46 (71.66666666666667), which is off the mean by 1 / (3 * 2^46);
  section 3 of the printed report shows it as 71.7 beside the table. None of these
  figures depends on the tree.
\<close>

theorem coverage_figures_fixed:
  "\<exists>total high structure strategy.
     calculate_testing_metrics tree =
       Inr \<lparr>total_files = total, high_priority_files = high,
            estimated_coverage =
              [(''models'', 85), (''repositories'', 75), (''services'', 70), (''utils'', 90),
               (''api'', 60), (''database'', 50)],
            average_coverage = 5043093332732587 / 2 ^ 46\<rparr>
     \<and> metrics_section tree =
         Inr (total, high, ''71.7'',
              [(''models'', 85), (''repositories'', 75), (''services'', 70), (''utils'', 90),
               (''api'', 60), (''database'', 50)])
     \<and> print_comprehensive_report tree =
         Inr (structure, strategy, total, high, ''71.7'',
              [(''models'', 85), (''repositories'', 75), (''services'', 70), (''utils'', 90),
               (''api'', 60), (''database'', 50)])
     \<and> \<bar>(5043093332732587 / 2 ^ 46 :: rat) - 430 / 6\<bar> = 1 / (3 * 2 ^ 46)"
proof -
  have p: "(2::rat) ^ 46 = 70368744177664" by simp
  have "\<bar>(5043093332732587 / 2 ^ 46 :: rat) - 430 / 6\<bar> = 1 / (3 * 2 ^ 46)"
    unfolding p by simp
  then show ?thesis
    unfolding p
    by (simp add: print_comprehensive_report_def metrics_section_def
        calculate_testing_metrics_eq format_average)
qed

text \<open>
  C8 as stated fails: the average that the metrics hold is not the exact mean 430/6
  (here for a tree of one file).
\<close>

theorem coverage_average_not_exact:
  "\<not> (\<exists>m. calculate_testing_metrics [''app/models/user.py''] = Inr m
          \<and> average_coverage m = 430 / 6)"
  by (auto simp: calculate_testing_metrics_eq)

text \<open>
  C9. The scan puts every path into the list of the first rule that matches it, in the
  order models, repository, services, utils, api or main.py, database or db, config,
  test: each of the eight lists is the tree filtered by \<open>first_match\<close>. So a path is in
  at most one list, the eight lists are pairwise disjoint, and a path that an earlier
  rule matches is in no later list.
\<close>

theorem first_matching_rule_classifies:
  "items (analyze_project_structure tree) =
     map (\<lambda>name. (name, filter (\<lambda>p. first_match p = Some name) tree)) (map fst rules)
   \<and> length (filter (\<lambda>(name, fs). p \<in> set fs) (items (analyze_project_structure tree))) \<le> 1
   \<and> (\<forall>i j. i < length rules \<and> j < length rules \<and> i \<noteq> j \<longrightarrow>
          set (snd (items (analyze_project_structure tree) ! i))
            \<inter> set (snd (items (analyze_project_structure tree) ! j)) = {})
   \<and> (\<forall>i j q. i < j \<and> j < length rules \<and> snd (rules ! i) q \<longrightarrow>
          q \<notin> set (snd (items (analyze_project_structure tree) ! j)))"
proof -
  note items_analyze [of tree]
  moreover note in_at_most_one_list [of p tree]
  moreover have "\<forall>i j. i < length rules \<and> j < length rules \<and> i \<noteq> j \<longrightarrow>
          set (snd (items (analyze_project_structure tree) ! i))
            \<inter> set (snd (items (analyze_project_structure tree) ! j)) = {}"
    using lists_disjoint by blast
  moreover have "\<forall>i j q. i < j \<and> j < length rules \<and> snd (rules ! i) q \<longrightarrow>
          q \<notin> set (snd (items (analyze_project_structure tree) ! j))"
    using earlier_rule_wins by blast
  ultimately show ?thesis by (intro conjI)
qed

text \<open>
  The theorem at a test file inside a \<open>models\<close> directory: the rules of \<open>models\<close> and of
  \<open>tests\<close> both match it, and it is in the list \<open>models\<close>, not in the list \<open>tests\<close>.
\<close>

theorem first_matching_rule_classifies_witness:
  "snd (rules ! 0) ''app/models/test_user.py''
   \<and> snd (rules ! 7) ''app/models/test_user.py''
   \<and> ''app/models/test_user.py'' \<notin>
        set (snd (items (analyze_project_structure
                     [''app/models/test_user.py'', ''tests/test_x.py'']) ! 7))
   \<and> models (analyze_project_structure [''app/models/test_user.py'', ''tests/test_x.py''])
        = [''app/models/test_user.py'']
   \<and> tests (analyze_project_structure [''app/models/test_user.py'', ''tests/test_x.py''])
        = [''tests/test_x.py'']"
proof -
  have r0: "snd (rules ! 0) ''app/models/test_user.py''" by (simp add: rules_def)
  have r7: "snd (rules ! 7) ''app/models/test_user.py''" by (simp add: rules_def)
  have l: "(0::nat) < 7 \<and> 7 < length rules" by (simp add: rules_def)
  from first_matching_rule_classifies
         [of "[''app/models/test_user.py'', ''tests/test_x.py'']" "''app/models/test_user.py''"]
       r0 l
  have n: "''app/models/test_user.py'' \<notin>
        set (snd (items (analyze_project_structure
                     [''app/models/test_user.py'', ''tests/test_x.py'']) ! 7))"
    by blast
  have m: "models (analyze_project_structure [''app/models/test_user.py'', ''tests/test_x.py''])
        = [''app/models/test_user.py'']"
    by (simp add: analyze_project_structure_def scan_file_def empty_components_def)
  have t: "tests (analyze_project_structure [''app/models/test_user.py'', ''tests/test_x.py''])
        = [''tests/test_x.py'']"
    by (simp add: analyze_project_structure_def scan_file_def empty_components_def)
  from r0 r7 n m t show ?thesis by (intro conjI)
qed

text \<open>
  C10. For every scanned tree the metrics are computed, and \<open>high_priority_files\<close> is
  at most \<open>total_files\<close>; \<open>total_files\<close> counts the files of the six strategy components
  (models, repositories, services, utils, api, database), which leaves out the lists
  \<open>config\<close> and \<open>tests\<close> of the scan, and \<open>high_priority_files\<close> counts those of the four
  components of priority HIGH (models, repositories, services, api).
\<close>

theorem high_priority_le_total:
  "\<exists>m. calculate_testing_metrics tree = Inr m
   \<and> high_priority_files m \<le> total_files m
   \<and> total_files m =
       length (models (analyze_project_structure tree))
       + length (repositories (analyze_project_structure tree))
       + length (services (analyze_project_structure tree))
       + length (utils (analyze_project_structure tree))
       + length (api (analyze_project_structure tree))
       + length (database (analyze_project_structure tree))
   \<and> high_priority_files m =
       length (models (analyze_project_structure tree))
       + length (repositories (analyze_project_structure tree))
       + length (services (analyze_project_structure tree))
       + length (api (analyze_project_structure tree))
   \<and> total_files m
       + length (config (analyze_project_structure tree))
       + length (tests (analyze_project_structure tree)) =
       sum_list (map (\<lambda>(name, fs). length fs) (items (analyze_project_structure tree)))"
  by (simp add: calculate_testing_metrics_eq items_def)

end
